theory Spec2Isabelle
  imports Main "HOL-Library.Word"
begin

section \<open>JavaScript values\<close>

text \<open>
  The registry of \<^verbatim>\<open>src/index.ts\<close> stores values of type \<^verbatim>\<open>any\<close> under keys that
  are, at run time, arbitrary JavaScript values. A value is a primitive or a reference to an
  object. A number is its IEEE 754 binary64 bit pattern; a string is a list of characters.

  Objects are references. \<open>ObjectPrototype\<close> is the intrinsic \<^verbatim>\<open>Object.prototype\<close>;
  \<open>Intrinsic n\<close> is the built-in function that is the initial value of the property \<open>n\<close>
  of \<^verbatim>\<open>Object.prototype\<close> (\<open>Intrinsic ''constructor''\<close> is \<^verbatim>\<open>Object\<close> itself);
  \<open>Ref n\<close> is any other object, allocated by the caller.
\<close>

datatype objref = ObjectPrototype | Intrinsic string | Ref nat

datatype jsval =
    VUndefined
  | VNull
  | VBool bool
  | VNum "64 word"
  | VBigInt int
  | VStr string
  | VSymbol nat
  | VObj objref

text \<open>
  \<^verbatim>\<open>ToBoolean\<close> (ECMA-262, 7.1.2): \<^verbatim>\<open>undefined\<close>, \<^verbatim>\<open>null\<close>, \<^verbatim>\<open>false\<close>,
  \<^verbatim>\<open>+0\<close>, \<^verbatim>\<open>-0\<close>, \<^verbatim>\<open>NaN\<close>, \<^verbatim>\<open>0n\<close> and the empty string are falsy, every
  other value is truthy. On the bit pattern of a number, the 63 bits below the sign are zero
  for \<^verbatim>\<open>+0\<close> and \<^verbatim>\<open>-0\<close> and lie above the pattern of infinity for a \<^verbatim>\<open>NaN\<close>.
\<close>

fun ToBoolean :: "jsval \<Rightarrow> bool" where
  "ToBoolean VUndefined = False"
| "ToBoolean VNull = False"
| "ToBoolean (VBool b) = b"
| "ToBoolean (VNum w) =
     (take_bit 63 w \<noteq> 0 \<and> take_bit 63 w \<le> 0x7FF0000000000000)"
| "ToBoolean (VBigInt i) = (i \<noteq> 0)"
| "ToBoolean (VStr s) = (s \<noteq> [])"
| "ToBoolean (VSymbol n) = True"
| "ToBoolean (VObj r) = True"

section \<open>Objects and property access\<close>

text \<open>
  \<^verbatim>\<open>const instances: Record<string, any> = {}\<close> creates one ordinary object when the
  module is loaded. An object literal's \<^verbatim>\<open>[[Prototype]]\<close> is \<^verbatim>\<open>Object.prototype\<close>.
  The code only ever assigns to \<^verbatim>\<open>instances[key]\<close>, so the own properties of the object
  are writable data properties: a map from names to values. The object is the whole state of
  the module.
\<close>

record jsobject =
  own :: "string \<rightharpoonup> jsval"
  prototype :: jsval

definition instances0 :: jsobject where
  "instances0 = \<lparr> own = Map.empty, prototype = VObj ObjectPrototype \<rparr>"

text \<open>
  A call either completes normally or throws. A failed assignment in strict code (a module
  is strict code) throws a \<^verbatim>\<open>TypeError\<close>; an accessor function written by the caller
  may throw any value.
\<close>

datatype exn = TypeError | Thrown jsval

type_synonym 'a completion = "exn + 'a"

text \<open>
  A property found on the prototype chain is a data property (its value, and whether it is
  writable) or an accessor property (its getter and its setter, each possibly missing). An
  accessor function is called with the object the property was looked up on as \<^verbatim>\<open>this\<close>,
  here always \<^verbatim>\<open>instances\<close>: it is modelled by what it returns or throws and what it does
  to that object.
\<close>

datatype property =
    Data jsval bool
  | Accessor "(jsobject \<Rightarrow> jsval completion \<times> jsobject) option"
             "(jsval \<Rightarrow> jsobject \<Rightarrow> unit completion \<times> jsobject) option"

text \<open>
  An object other than \<^verbatim>\<open>instances\<close>, as property lookup sees it: its own properties and
  its prototype, which is \<^verbatim>\<open>null\<close>, \<^verbatim>\<open>Object.prototype\<close> or another object. Prototype
  chains are finite and acyclic (\<^verbatim>\<open>[[SetPrototypeOf]]\<close> refuses a cycle), so the chain is
  a finite structure. The heap gives this view for every reference but \<open>ObjectPrototype\<close>;
  it is a parameter of every operation, since the module never writes to any object but
  \<^verbatim>\<open>instances\<close>. That object is private to the module: it is not a \<open>jsval\<close> and occurs
  in no chain.

  The realm is unmodified (nothing has redefined the properties of \<^verbatim>\<open>Object.prototype\<close>),
  and the objects on a chain are ordinary objects; a proxy is not modelled.
\<close>

datatype uobj = UObj "(string \<times> property) list" uproto
and uproto = ProtoNull | ProtoObjectPrototype | ProtoObj uobj

type_synonym heap = "objref \<Rightarrow> uobj"

text \<open>
  The \<^verbatim>\<open>__proto__\<close> accessor of \<^verbatim>\<open>Object.prototype\<close> (ECMA-262, 20.1.3.8). The getter
  returns the \<^verbatim>\<open>[[Prototype]]\<close> of \<^verbatim>\<open>this\<close>. The setter ignores a value that is neither
  an object nor \<^verbatim>\<open>null\<close> and otherwise sets the \<^verbatim>\<open>[[Prototype]]\<close> of \<^verbatim>\<open>this\<close>;
  \<^verbatim>\<open>instances\<close> is extensible and in no chain, so that never fails.
\<close>

definition proto_getter :: "jsobject \<Rightarrow> jsval completion \<times> jsobject" where
  "proto_getter this = (Inr (prototype this), this)"

definition proto_setter :: "jsval \<Rightarrow> jsobject \<Rightarrow> unit completion \<times> jsobject" where
  "proto_setter v this =
     (case v of
        VObj r \<Rightarrow> (Inr (), this\<lparr>prototype := v\<rparr>)
      | VNull \<Rightarrow> (Inr (), this\<lparr>prototype := v\<rparr>)
      | _ \<Rightarrow> (Inr (), this))"

text \<open>
  The own properties of \<^verbatim>\<open>Object.prototype\<close> in an unmodified realm (ECMA-262, 20.1.3
  and B.2.2): the accessor \<^verbatim>\<open>__proto__\<close> and eleven writable data properties holding
  built-in functions.
\<close>

definition ObjectPrototype_methods :: "string list" where
  "ObjectPrototype_methods =
     [''constructor'', ''hasOwnProperty'', ''isPrototypeOf'', ''propertyIsEnumerable'',
      ''toLocaleString'', ''toString'', ''valueOf'', ''__defineGetter__'',
      ''__defineSetter__'', ''__lookupGetter__'', ''__lookupSetter__'']"

definition ObjectPrototype_own :: "string \<Rightarrow> property option" where
  "ObjectPrototype_own k =
     (if k = ''__proto__'' then Some (Accessor (Some proto_getter) (Some proto_setter))
      else if k \<in> set ObjectPrototype_methods then Some (Data (VObj (Intrinsic k)) True)
      else None)"

text \<open>The first property named \<open>k\<close> on a chain, own properties before inherited ones.\<close>

fun find_uobj :: "uobj \<Rightarrow> string \<Rightarrow> property option"
and find_uproto :: "uproto \<Rightarrow> string \<Rightarrow> property option" where
  "find_uobj (UObj ps p) k =
     (case map_of ps k of Some d \<Rightarrow> Some d | None \<Rightarrow> find_uproto p k)"
| "find_uproto ProtoNull k = None"
| "find_uproto ProtoObjectPrototype k = ObjectPrototype_own k"
| "find_uproto (ProtoObj ob) k = find_uobj ob k"

definition find_inherited :: "heap \<Rightarrow> jsval \<Rightarrow> string \<Rightarrow> property option" where
  "find_inherited h p k =
     (case p of
        VObj r \<Rightarrow> (case r of ObjectPrototype \<Rightarrow> ObjectPrototype_own k
                            | _ \<Rightarrow> find_uobj (h r) k)
      | _ \<Rightarrow> None)"

text \<open>
  \<^verbatim>\<open>instances[k]\<close> as an expression: \<^verbatim>\<open>[[Get]]\<close> (ECMA-262, 10.1.8). An own property
  wins; otherwise the chain is searched; a data property gives its value, an accessor calls
  its getter on \<^verbatim>\<open>instances\<close>, no property gives \<^verbatim>\<open>undefined\<close>.
\<close>

definition GetV :: "heap \<Rightarrow> jsobject \<Rightarrow> string \<Rightarrow> jsval completion \<times> jsobject" where
  "GetV h obj k =
     (case own obj k of
        Some v \<Rightarrow> (Inr v, obj)
      | None \<Rightarrow>
          (case find_inherited h (prototype obj) k of
             None \<Rightarrow> (Inr VUndefined, obj)
           | Some (Data v w) \<Rightarrow> (Inr v, obj)
           | Some (Accessor g s) \<Rightarrow>
               (case g of None \<Rightarrow> (Inr VUndefined, obj) | Some getter \<Rightarrow> getter obj)))"

text \<open>
  \<^verbatim>\<open>instances[k] = v\<close> as a statement: \<^verbatim>\<open>[[Set]]\<close> (ECMA-262, 10.1.9). An own
  property is overwritten. Otherwise the chain decides: with no property of that name, or a
  writable data property, a new own property is created on \<^verbatim>\<open>instances\<close>; an inherited
  setter is called on \<^verbatim>\<open>instances\<close> instead of storing anything; a read-only data
  property or an accessor without a setter makes the assignment fail, which throws in
  strict code.
\<close>

definition PutV :: "heap \<Rightarrow> jsobject \<Rightarrow> string \<Rightarrow> jsval \<Rightarrow> unit completion \<times> jsobject" where
  "PutV h obj k v =
     (case own obj k of
        Some old \<Rightarrow> (Inr (), obj\<lparr>own := (own obj)(k \<mapsto> v)\<rparr>)
      | None \<Rightarrow>
          (case find_inherited h (prototype obj) k of
             None \<Rightarrow> (Inr (), obj\<lparr>own := (own obj)(k \<mapsto> v)\<rparr>)
           | Some (Data old w) \<Rightarrow>
               (if w then (Inr (), obj\<lparr>own := (own obj)(k \<mapsto> v)\<rparr>)
                else (Inl TypeError, obj))
           | Some (Accessor g s) \<Rightarrow>
               (case s of None \<Rightarrow> (Inl TypeError, obj) | Some setter \<Rightarrow> setter v obj)))"

section \<open>The service locator\<close>

text \<open>
  \<^verbatim>\<open>function isString(arg: unknown): arg is string { return typeof arg === "string"; }\<close>
\<close>

definition isString :: "jsval \<Rightarrow> bool" where
  "isString arg = (case arg of VStr s \<Rightarrow> True | _ \<Rightarrow> False)"

text \<open>
  \<^verbatim>\<open>set(instanceId, instance)\<close>: the bare \<^verbatim>\<open>isString;\<close> statement does nothing; a
  string key is assigned to, any other key is skipped. The method returns nothing.
\<close>

definition set_sl :: "heap \<Rightarrow> jsval \<Rightarrow> jsval \<Rightarrow> jsobject \<Rightarrow> unit completion \<times> jsobject" where
  "set_sl h instanceId instance instances =
     (if isString instanceId then
        (case instanceId of
           VStr k \<Rightarrow> PutV h instances k instance
         | _ \<Rightarrow> (Inr (), instances))
      else (Inr (), instances))"

text \<open>
  \<^verbatim>\<open>get(instanceId)\<close>: the condition reads \<^verbatim>\<open>instances[instanceId]\<close> and tests it for
  truthiness, the \<^verbatim>\<open>return\<close> reads it a second time. Falling off the end of the method
  returns \<^verbatim>\<open>undefined\<close>. An exception of a read leaves the method at once.
\<close>

definition get_sl :: "heap \<Rightarrow> jsval \<Rightarrow> jsobject \<Rightarrow> jsval completion \<times> jsobject" where
  "get_sl h instanceId instances =
     (if isString instanceId then
        (case instanceId of
           VStr k \<Rightarrow>
             (case GetV h instances k of
                (Inl e, instances1) \<Rightarrow> (Inl e, instances1)
              | (Inr c, instances1) \<Rightarrow>
                  (if ToBoolean c then GetV h instances1 k
                   else (Inr VUndefined, instances1)))
         | _ \<Rightarrow> (Inr VUndefined, instances))
      else (Inr VUndefined, instances))"

text \<open>
  \<^verbatim>\<open>createServiceLocator\<close> returns a new object with the two methods. Both close over
  the module-level \<^verbatim>\<open>instances\<close>, never over anything made by the call: every locator
  works on the one state that is passed through the calls.
\<close>

record locator =
  set_method :: "heap \<Rightarrow> jsval \<Rightarrow> jsval \<Rightarrow> jsobject \<Rightarrow> unit completion \<times> jsobject"
  get_method :: "heap \<Rightarrow> jsval \<Rightarrow> jsobject \<Rightarrow> jsval completion \<times> jsobject"

definition createServiceLocator :: "unit \<Rightarrow> locator" where
  "createServiceLocator u = \<lparr> set_method = set_sl, get_method = get_sl \<rparr>"

section \<open>Sequences of calls\<close>

text \<open>
  The public contract is a sequence of \<^verbatim>\<open>set\<close> and \<^verbatim>\<open>get\<close> calls, made through any
  locator. A call that throws leaves the state as it is at the throw. A key is present when
  \<^verbatim>\<open>get\<close> returns a value for it, absent when \<^verbatim>\<open>get\<close> returns \<^verbatim>\<open>undefined\<close>.
\<close>

datatype call = SetCall jsval jsval | GetCall jsval

fun step :: "heap \<Rightarrow> jsobject \<Rightarrow> call \<Rightarrow> jsobject" where
  "step h s (SetCall instanceId instance) = snd (set_sl h instanceId instance s)"
| "step h s (GetCall instanceId) = snd (get_sl h instanceId s)"

fun run :: "heap \<Rightarrow> jsobject \<Rightarrow> call list \<Rightarrow> jsobject" where
  "run h s [] = s"
| "run h s (c # cs) = run h (step h s c) cs"

definition present :: "heap \<Rightarrow> jsobject \<Rightarrow> string \<Rightarrow> bool" where
  "present h s k =
     (case fst (get_sl h (VStr k) s) of Inl e \<Rightarrow> False | Inr v \<Rightarrow> v \<noteq> VUndefined)"

text \<open>
  The calls that cannot take the key \<open>k\<close> from present to absent: every \<^verbatim>\<open>get\<close>, and
  every \<^verbatim>\<open>set\<close> whose key is not \<^verbatim>\<open>"__proto__"\<close> and that stores a truthy value when
  its key is \<open>k\<close>.
\<close>

fun keeps :: "string \<Rightarrow> call \<Rightarrow> bool" where
  "keeps k (GetCall instanceId) = True"
| "keeps k (SetCall instanceId instance) =
     (instanceId \<noteq> VStr ''__proto__'' \<and> (instanceId \<noteq> VStr k \<or> ToBoolean instance))"

section \<open>Objects of a caller\<close>

text \<open>
  Heaps for the concrete runs below. In \<open>plain_heap\<close> every reference is an object
  without own properties whose prototype is \<^verbatim>\<open>Object.prototype\<close>, such as \<^verbatim>\<open>{}\<close>.
\<close>

definition plain_heap :: heap where
  "plain_heap = (\<lambda>r. UObj [] ProtoObjectPrototype)"

text \<open>\<^verbatim>\<open>{ get boom() { throw "boom"; } }\<close> at \<open>Ref 0\<close>.\<close>

definition throwing_getter :: "jsobject \<Rightarrow> jsval completion \<times> jsobject" where
  "throwing_getter this = (Inl (Thrown (VStr ''boom'')), this)"

definition throwing_heap :: heap where
  "throwing_heap =
     plain_heap(Ref 0 := UObj [(''boom'', Accessor (Some throwing_getter) None)]
                              ProtoObjectPrototype)"

text \<open>
  \<^verbatim>\<open>{ get x() { this.y = true; return true; } }\<close> at \<open>Ref 0\<close>. No object of the chain
  has a property \<^verbatim>\<open>y\<close>, so the assignment in the getter creates an own property of
  \<^verbatim>\<open>this\<close>.
\<close>

definition writing_getter :: "jsobject \<Rightarrow> jsval completion \<times> jsobject" where
  "writing_getter this = (Inr (VBool True), this\<lparr>own := (own this)(''y'' \<mapsto> VBool True)\<rparr>)"

definition writing_heap :: heap where
  "writing_heap =
     plain_heap(Ref 0 := UObj [(''x'', Accessor (Some writing_getter) None)]
                              ProtoObjectPrototype)"

text \<open>\<^verbatim>\<open>{ logger: "x" }\<close> at \<open>Ref 0\<close>.\<close>

definition logger_heap :: heap where
  "logger_heap =
     plain_heap(Ref 0 := UObj [(''logger'', Data (VStr ''x'') True)] ProtoObjectPrototype)"

text \<open>\<^verbatim>\<open>Object.create(null)\<close> at \<open>Ref 0\<close>: no own property, no prototype.\<close>

definition bare_heap :: heap where
  "bare_heap = plain_heap(Ref 0 := UObj [] ProtoNull)"

section \<open>The module as its tests use it\<close>

lemmas js_defs =
  set_sl_def get_sl_def isString_def PutV_def GetV_def find_inherited_def
  ObjectPrototype_own_def ObjectPrototype_methods_def proto_getter_def proto_setter_def
  instances0_def createServiceLocator_def

text \<open>
  The two tests of \<^verbatim>\<open>tests/index.test.ts\<close>: a fresh locator returns nothing for
  \<^verbatim>\<open>"server"\<close>, and returns the mock server once it is registered.
\<close>

lemma test_returns_nothing_when_nothing_is_registered:
  "get_method (createServiceLocator ()) h (VStr ''server'') instances0 =
     (Inr VUndefined, instances0)"
  by (simp add: js_defs)

lemma test_returns_registered_service:
  "get_method (createServiceLocator ()) h (VStr ''server'')
     (snd (set_method (createServiceLocator ()) h (VStr ''server'') (VObj (Ref 0)) instances0)) =
   (Inr (VObj (Ref 0)), instances0\<lparr>own := [''server'' \<mapsto> VObj (Ref 0)]\<rparr>)"
  by (simp add: js_defs)

section \<open>While the prototype of the store is untouched\<close>

text \<open>
  As long as the \<^verbatim>\<open>[[Prototype]]\<close> of \<^verbatim>\<open>instances\<close> is \<^verbatim>\<open>Object.prototype\<close>, no
  object of the caller is on the chain, and the heap plays no part.
\<close>

lemma find_pristine:
  "find_inherited h (VObj ObjectPrototype) k = ObjectPrototype_own k"
  by (simp add: find_inherited_def)

lemma PutV_pristine:
  assumes "prototype s = VObj ObjectPrototype" and "k \<noteq> ''__proto__''"
  shows "PutV h s k v = (Inr (), s\<lparr>own := (own s)(k \<mapsto> v)\<rparr>)"
  using assms
  by (simp add: PutV_def find_pristine ObjectPrototype_own_def split: option.split)

lemma GetV_pristine:
  assumes "prototype s = VObj ObjectPrototype"
  shows "GetV h s k =
     (Inr (case own s k of
             Some v \<Rightarrow> v
           | None \<Rightarrow>
               (if k = ''__proto__'' then VObj ObjectPrototype
                else if k \<in> set ObjectPrototype_methods then VObj (Intrinsic k)
                else VUndefined)), s)"
  using assms
  by (simp add: GetV_def find_pristine ObjectPrototype_own_def proto_getter_def
      split: option.split)

lemma get_sl_pristine_state:
  assumes "prototype s = VObj ObjectPrototype"
  shows "snd (get_sl h instanceId s) = s"
  by (cases instanceId) (simp_all add: get_sl_def isString_def GetV_pristine [OF assms])

lemma present_pristine:
  assumes "prototype s = VObj ObjectPrototype"
  shows "present h s k =
     ToBoolean (case own s k of
             Some v \<Rightarrow> v
           | None \<Rightarrow>
               (if k = ''__proto__'' then VObj ObjectPrototype
                else if k \<in> set ObjectPrototype_methods then VObj (Intrinsic k)
                else VUndefined))"
proof -
  have "ToBoolean x \<Longrightarrow> x \<noteq> VUndefined" for x by auto
  then show ?thesis
    by (auto simp add: present_def get_sl_def isString_def GetV_pristine [OF assms])
qed

lemma step_pristine:
  assumes "prototype s = VObj ObjectPrototype" and "keeps k c"
  shows "prototype (step h s c) = VObj ObjectPrototype"
proof (cases c)
  case (GetCall instanceId)
  then show ?thesis using assms by (simp add: get_sl_pristine_state)
next
  case (SetCall instanceId val)
  then show ?thesis using assms
    by (cases instanceId) (simp_all add: set_sl_def isString_def PutV_pristine)
qed

lemma step_present:
  assumes pr: "prototype s = VObj ObjectPrototype" and kc: "keeps k c" and pk: "present h s k"
  shows "present h (step h s c) k"
proof (cases c)
  case (GetCall instanceId)
  then show ?thesis using pr pk by (simp add: get_sl_pristine_state)
next
  case (SetCall instanceId val)
  have p: "prototype (step h s c) = VObj ObjectPrototype"
    using pr kc by (rule step_pristine)
  show ?thesis
  proof (cases instanceId)
    case (VStr k')
    then have k': "k' \<noteq> ''__proto__''" and t: "k' \<noteq> k \<or> ToBoolean val"
      using kc SetCall by auto
    have st: "step h s c = s\<lparr>own := (own s)(k' \<mapsto> val)\<rparr>"
      using SetCall VStr pr k' by (simp add: set_sl_def isString_def PutV_pristine)
    from pk have "ToBoolean (case own s k of
             Some v \<Rightarrow> v
           | None \<Rightarrow>
               (if k = ''__proto__'' then VObj ObjectPrototype
                else if k \<in> set ObjectPrototype_methods then VObj (Intrinsic k)
                else VUndefined))"
      by (simp add: present_pristine [OF pr])
    with t show ?thesis
      unfolding present_pristine [OF p] by (auto simp add: st)
  qed (use SetCall pk in \<open>simp_all add: set_sl_def isString_def\<close>)
qed

text \<open>
  What the registry does for an ordinary key in that state: a string key other than
  \<^verbatim>\<open>"__proto__"\<close> is stored as an own property, a truthy value comes back from
  \<^verbatim>\<open>get\<close>, a falsy one reads as absent, other keys keep their entries, and a key that is
  not a string is ignored by both methods in every state.
\<close>

lemma set_sl_ordinary_key:
  assumes "prototype s = VObj ObjectPrototype" and "k \<noteq> ''__proto__''"
  shows "set_sl h (VStr k) v s = (Inr (), s\<lparr>own := (own s)(k \<mapsto> v)\<rparr>)"
  using assms by (simp add: set_sl_def isString_def PutV_pristine)

lemma set_get_ordinary_key:
  assumes "prototype s = VObj ObjectPrototype" and "k \<noteq> ''__proto__''"
  shows "fst (get_sl h (VStr k) (snd (set_sl h (VStr k) v s))) =
     Inr (if ToBoolean v then v else VUndefined)"
proof -
  let ?s' = "s\<lparr>own := (own s)(k \<mapsto> v)\<rparr>"
  have "prototype ?s' = VObj ObjectPrototype" using assms(1) by simp
  then have "GetV h ?s' k = (Inr v, ?s')" by (simp add: GetV_pristine)
  then show ?thesis
    using assms by (simp add: set_sl_ordinary_key get_sl_def isString_def)
qed

lemma non_string_key_ignored:
  assumes "\<not> isString instanceId"
  shows "set_sl h instanceId v s = (Inr (), s)" and "get_sl h instanceId s = (Inr VUndefined, s)"
  using assms by (simp_all add: set_sl_def get_sl_def)

lemma get_sl_unregistered_key:
  assumes "prototype s = VObj ObjectPrototype" and "own s k = None"
    and "k \<noteq> ''__proto__''" and "k \<notin> set ObjectPrototype_methods"
  shows "get_sl h (VStr k) s = (Inr VUndefined, s)"
  using assms by (simp add: get_sl_def isString_def GetV_pristine)

lemma set_sl_overwrites:
  assumes "prototype s = VObj ObjectPrototype" and "k \<noteq> ''__proto__''"
  shows "snd (set_sl h (VStr k) v2 (snd (set_sl h (VStr k) v1 s))) = snd (set_sl h (VStr k) v2 s)"
  using assms by (simp add: set_sl_ordinary_key)

lemma set_sl_keeps_other_keys:
  assumes "prototype s = VObj ObjectPrototype" and "k \<noteq> ''__proto__''" and "k' \<noteq> k"
  shows "own (snd (set_sl h (VStr k) v s)) k' = own s k'"
    and "fst (get_sl h (VStr k') (snd (set_sl h (VStr k) v s))) = fst (get_sl h (VStr k') s)"
  using assms by (simp_all add: set_sl_ordinary_key get_sl_def isString_def GetV_pristine)

section \<open>The claims\<close>

text \<open>
  Claim C1: for every string key \<open>k\<close> and every truthy value \<open>v\<close>, \<^verbatim>\<open>set(k, v)\<close> followed
  by \<^verbatim>\<open>get(k)\<close> returns \<open>v\<close>.

  The code does not do that for the key \<^verbatim>\<open>"__proto__"\<close>. On a fresh store,
  \<^verbatim>\<open>instances["__proto__"] = true\<close> runs the inherited setter of \<^verbatim>\<open>Object.prototype\<close>,
  which ignores a primitive and stores nothing; \<^verbatim>\<open>instances["__proto__"]\<close> then runs the
  inherited getter. The value \<^verbatim>\<open>true\<close> is truthy, \<^verbatim>\<open>set\<close> leaves the store as it was,
  and \<^verbatim>\<open>get\<close> returns \<^verbatim>\<open>Object.prototype\<close>.
\<close>

theorem C1_set_get_on_proto_key:
  "ToBoolean (VBool True) \<and>
   set_sl h (VStr ''__proto__'') (VBool True) instances0 = (Inr (), instances0) \<and>
   get_sl h (VStr ''__proto__'') (snd (set_sl h (VStr ''__proto__'') (VBool True) instances0)) =
     (Inr (VObj ObjectPrototype), instances0)"
  by (simp add: js_defs)

text \<open>
  Claim C2: for every string key \<open>k\<close> that was never passed to \<^verbatim>\<open>set\<close>, \<^verbatim>\<open>get(k)\<close>
  returns \<^verbatim>\<open>undefined\<close>.

  The code does not do that for the names of the properties of \<^verbatim>\<open>Object.prototype\<close>.
  Before any call of \<^verbatim>\<open>set\<close>, \<^verbatim>\<open>get("toString")\<close> returns the built-in function
  \<^verbatim>\<open>Object.prototype.toString\<close> and \<^verbatim>\<open>get("constructor")\<close> returns \<^verbatim>\<open>Object\<close>:
  the read finds the inherited property, and a function is truthy.
\<close>

theorem C2_get_of_inherited_name:
  "get_sl h (VStr ''toString'') instances0 = (Inr (VObj (Intrinsic ''toString'')), instances0) \<and>
   get_sl h (VStr ''constructor'') instances0 =
     (Inr (VObj (Intrinsic ''constructor'')), instances0)"
  by (simp add: js_defs)

text \<open>
  Claim C3: for every string key \<open>k\<close> and truthy values \<open>v1\<close>, \<open>v2\<close>, \<^verbatim>\<open>set(k, v1)\<close>,
  \<^verbatim>\<open>set(k, v2)\<close> and then \<^verbatim>\<open>get(k)\<close> returns \<open>v2\<close>; the later \<^verbatim>\<open>set\<close> replaces the
  earlier value without error.

  The code does not do that for the key \<^verbatim>\<open>"__proto__"\<close>: after
  \<^verbatim>\<open>set("__proto__", true)\<close> and \<^verbatim>\<open>set("__proto__", "x")\<close>, two truthy values, nothing
  is stored and \<^verbatim>\<open>get("__proto__")\<close> returns \<^verbatim>\<open>Object.prototype\<close>.
\<close>

theorem C3_overwrite_on_proto_key:
  "ToBoolean (VBool True) \<and> ToBoolean (VStr ''x'') \<and>
   get_sl h (VStr ''__proto__'')
     (snd (set_sl h (VStr ''__proto__'') (VStr ''x'')
        (snd (set_sl h (VStr ''__proto__'') (VBool True) instances0)))) =
     (Inr (VObj ObjectPrototype), instances0)"
  by (simp add: js_defs)

text \<open>
  Claim C4: for every string key \<open>k\<close>, \<^verbatim>\<open>set(k, v)\<close> with a falsy \<open>v\<close> (\<^verbatim>\<open>0\<close>, the
  empty string or \<^verbatim>\<open>false\<close>) followed by \<^verbatim>\<open>get(k)\<close> returns \<^verbatim>\<open>undefined\<close>.

  The code does not do that for the key \<^verbatim>\<open>"__proto__"\<close>: each of the three values is
  ignored by the inherited setter, and \<^verbatim>\<open>get("__proto__")\<close> returns
  \<^verbatim>\<open>Object.prototype\<close>.
\<close>

theorem C4_falsy_on_proto_key:
  "\<not> ToBoolean (VNum 0) \<and> \<not> ToBoolean (VStr []) \<and> \<not> ToBoolean (VBool False) \<and>
   fst (get_sl h (VStr ''__proto__'') (snd (set_sl h (VStr ''__proto__'') (VNum 0) instances0))) =
     Inr (VObj ObjectPrototype) \<and>
   fst (get_sl h (VStr ''__proto__'') (snd (set_sl h (VStr ''__proto__'') (VStr []) instances0))) =
     Inr (VObj ObjectPrototype) \<and>
   fst (get_sl h (VStr ''__proto__'')
     (snd (set_sl h (VStr ''__proto__'') (VBool False) instances0))) =
     Inr (VObj ObjectPrototype)"
  by (simp add: js_defs)

text \<open>
  Claim C5: every locator made by the factory shares the one store, so after
  \<^verbatim>\<open>sl1.set(k, v)\<close> with a truthy \<open>v\<close>, \<^verbatim>\<open>sl2.get(k)\<close> returns \<open>v\<close> for any two locators
  \<open>sl1\<close> and \<open>sl2\<close>.

  Two locators do work on the same store, but the value does not come back for the key
  \<^verbatim>\<open>"__proto__"\<close>: after \<^verbatim>\<open>sl1.set("__proto__", true)\<close>, \<^verbatim>\<open>sl2.get("__proto__")\<close>
  returns \<^verbatim>\<open>Object.prototype\<close>.
\<close>

theorem C5_second_locator_on_proto_key:
  "ToBoolean (VBool True) \<and>
   get_method (createServiceLocator ()) h (VStr ''__proto__'')
     (snd (set_method (createServiceLocator ()) h (VStr ''__proto__'') (VBool True) instances0)) =
     (Inr (VObj ObjectPrototype), instances0)"
  by (simp add: js_defs)

text \<open>
  Claim C6: neither \<^verbatim>\<open>set\<close> nor \<^verbatim>\<open>get\<close> ever throws, on any input; a key that is not
  a string makes \<^verbatim>\<open>set\<close> do nothing and \<^verbatim>\<open>get\<close> return \<^verbatim>\<open>undefined\<close>.

  The second half holds (\<open>non_string_key_ignored\<close>). The first does not: \<^verbatim>\<open>set\<close> with
  the key \<^verbatim>\<open>"__proto__"\<close> and an object puts that object on the prototype chain of the
  store, and a later read runs its accessors. With \<^verbatim>\<open>{ get boom() { throw "boom"; } }\<close>
  registered that way, \<^verbatim>\<open>set\<close> returns normally and \<^verbatim>\<open>get("boom")\<close> throws.
\<close>

theorem C6_get_throws:
  "fst (set_sl throwing_heap (VStr ''__proto__'') (VObj (Ref 0)) instances0) = Inr () \<and>
   fst (get_sl throwing_heap (VStr ''boom'')
     (snd (set_sl throwing_heap (VStr ''__proto__'') (VObj (Ref 0)) instances0))) =
     Inl (Thrown (VStr ''boom''))"
  by (simp add: js_defs throwing_heap_def throwing_getter_def)

text \<open>
  Claim C7: \<^verbatim>\<open>get\<close> has no side effect: for every key, \<^verbatim>\<open>get(k)\<close> leaves the store
  exactly as it was.

  That holds while the prototype of the store is untouched (\<open>get_sl_pristine_state\<close>), and
  fails after \<^verbatim>\<open>set("__proto__", obj)\<close>: with
  \<^verbatim>\<open>{ get x() { this.y = true; return true; } }\<close> on the chain, \<^verbatim>\<open>get("x")\<close> runs the
  getter on the store, and the store has an own property \<^verbatim>\<open>y\<close> afterwards that it did
  not have before.
\<close>

theorem C7_get_writes_to_store:
  "own (snd (set_sl writing_heap (VStr ''__proto__'') (VObj (Ref 0)) instances0)) ''y'' = None \<and>
   own (snd (get_sl writing_heap (VStr ''x'')
     (snd (set_sl writing_heap (VStr ''__proto__'') (VObj (Ref 0)) instances0)))) ''y'' =
     Some (VBool True)"
  by (simp add: js_defs writing_heap_def writing_getter_def)

text \<open>
  Claim C8: under any sequence of \<^verbatim>\<open>set\<close> and \<^verbatim>\<open>get\<close> calls a key only goes from
  absent to present or stays present; no call takes a key from present to absent.

  The code lets \<^verbatim>\<open>set\<close> store a falsy value, which \<^verbatim>\<open>get\<close> reports as absent:
  after \<^verbatim>\<open>set("server", true)\<close> the key is present, after \<^verbatim>\<open>set("server", 0)\<close> it is
  absent.
\<close>

theorem C8_present_to_absent:
  "present plain_heap
     (run plain_heap instances0 [SetCall (VStr ''server'') (VBool True)]) ''server'' \<and>
   \<not> present plain_heap
     (run plain_heap instances0
        [SetCall (VStr ''server'') (VBool True), SetCall (VStr ''server'') (VNum 0)]) ''server''"
  by (simp add: present_def js_defs)

text \<open>
  Claim C8, amended: as long as no \<^verbatim>\<open>set\<close> call uses the key \<^verbatim>\<open>"__proto__"\<close> (the
  prototype of the store is \<^verbatim>\<open>Object.prototype\<close>, as it is when the module is loaded),
  a key that is present stays present through every sequence of \<^verbatim>\<open>get\<close> calls,
  \<^verbatim>\<open>set\<close> calls on other keys and \<^verbatim>\<open>set\<close> calls on the key itself with a truthy
  value. Only \<^verbatim>\<open>set(k, v)\<close> with a falsy \<open>v\<close> takes \<open>k\<close> from present to absent.
\<close>

theorem C8_present_stays:
  assumes "prototype s = VObj ObjectPrototype"
    and "present h s k"
    and "list_all (keeps k) cs"
  shows "present h (run h s cs) k"
  using assms
proof (induction cs arbitrary: s)
  case Nil
  then show ?case by simp
next
  case (Cons c cs)
  from Cons.prems have kc: "keeps k c" and rest: "list_all (keeps k) cs" by simp_all
  have "prototype (step h s c) = VObj ObjectPrototype"
    using Cons.prems(1) kc by (rule step_pristine)
  moreover have "present h (step h s c) k"
    using Cons.prems(1) kc Cons.prems(2) by (rule step_present)
  ultimately have "present h (run h (step h s c) cs) k"
    using rest by (rule Cons.IH)
  then show ?case by simp
qed

text \<open>
  The amended claim C8 on a run: \<^verbatim>\<open>"server"\<close> is registered, then read, another key
  is set to \<^verbatim>\<open>0\<close>, \<^verbatim>\<open>"server"\<close> is overwritten with another object, a \<^verbatim>\<open>set\<close> with a
  number as key is ignored, and \<^verbatim>\<open>"server"\<close> is still present.
\<close>

theorem C8_present_stays_witness:
  "prototype (run plain_heap instances0 [SetCall (VStr ''server'') (VObj (Ref 0))]) =
     VObj ObjectPrototype \<and>
   present plain_heap
     (run plain_heap instances0 [SetCall (VStr ''server'') (VObj (Ref 0))]) ''server'' \<and>
   list_all (keeps ''server'')
     [GetCall (VStr ''server''), SetCall (VStr ''logger'') (VNum 0),
      SetCall (VStr ''server'') (VObj (Ref 1)), SetCall (VNum 0) VNull,
      GetCall (VStr ''logger'')] \<and>
   present plain_heap
     (run plain_heap (run plain_heap instances0 [SetCall (VStr ''server'') (VObj (Ref 0))])
        [GetCall (VStr ''server''), SetCall (VStr ''logger'') (VNum 0),
         SetCall (VStr ''server'') (VObj (Ref 1)), SetCall (VNum 0) VNull,
         GetCall (VStr ''logger'')]) ''server''"
  using C8_present_stays
    [of "run plain_heap instances0 [SetCall (VStr ''server'') (VObj (Ref 0))]"
        plain_heap "''server''"
        "[GetCall (VStr ''server''), SetCall (VStr ''logger'') (VNum 0),
          SetCall (VStr ''server'') (VObj (Ref 1)), SetCall (VNum 0) VNull,
          GetCall (VStr ''logger'')]"]
  by (simp add: present_def js_defs)

text \<open>
  Claim C9: for every string key \<open>k\<close> and value \<open>v\<close>, \<^verbatim>\<open>set(k, v)\<close> leaves the entry of
  every other key as it was, and \<^verbatim>\<open>get\<close> of another key returns what it returned before.

  The code does not do that for the key \<^verbatim>\<open>"__proto__"\<close>, which replaces the prototype
  of the store and with it what every key without an own entry reads. After
  \<^verbatim>\<open>set("__proto__", { logger: "x" })\<close> the key \<^verbatim>\<open>"logger"\<close>, never registered, reads
  \<^verbatim>\<open>"x"\<close>; after \<^verbatim>\<open>set("__proto__", null)\<close> the key \<^verbatim>\<open>"toString"\<close> reads
  \<^verbatim>\<open>undefined\<close> where it read a function before.
\<close>

theorem C9_set_changes_other_keys:
  "fst (get_sl logger_heap (VStr ''logger'') instances0) = Inr VUndefined \<and>
   fst (get_sl logger_heap (VStr ''logger'')
     (snd (set_sl logger_heap (VStr ''__proto__'') (VObj (Ref 0)) instances0))) =
     Inr (VStr ''x'') \<and>
   fst (get_sl h (VStr ''toString'') instances0) = Inr (VObj (Intrinsic ''toString'')) \<and>
   fst (get_sl h (VStr ''toString'') (snd (set_sl h (VStr ''__proto__'') VNull instances0))) =
     Inr VUndefined"
  by (simp add: js_defs logger_heap_def)

text \<open>
  Claim C10: \<^verbatim>\<open>set\<close> is idempotent: \<^verbatim>\<open>set(k, v)\<close> twice in succession leaves the
  store in the state that one call leaves.

  The code does not do that for the key \<^verbatim>\<open>"__proto__"\<close> and a value whose prototype
  chain does not end in \<^verbatim>\<open>Object.prototype\<close>. With \<^verbatim>\<open>v = Object.create(null)\<close>, the
  first call runs the inherited setter and makes \<open>v\<close> the prototype of the store; no
  setter is inherited any more, so the second call creates an own property named
  \<^verbatim>\<open>"__proto__"\<close>. The two states differ, and \<^verbatim>\<open>get("__proto__")\<close> tells them apart.
\<close>

theorem C10_set_twice_differs:
  "snd (set_sl bare_heap (VStr ''__proto__'') (VObj (Ref 0))
     (snd (set_sl bare_heap (VStr ''__proto__'') (VObj (Ref 0)) instances0))) \<noteq>
   snd (set_sl bare_heap (VStr ''__proto__'') (VObj (Ref 0)) instances0) \<and>
   fst (get_sl bare_heap (VStr ''__proto__'')
     (snd (set_sl bare_heap (VStr ''__proto__'') (VObj (Ref 0)) instances0))) =
     Inr VUndefined \<and>
   fst (get_sl bare_heap (VStr ''__proto__'')
     (snd (set_sl bare_heap (VStr ''__proto__'') (VObj (Ref 0))
        (snd (set_sl bare_heap (VStr ''__proto__'') (VObj (Ref 0)) instances0))))) =
     Inr (VObj (Ref 0))"
  by (simp add: js_defs bare_heap_def)

end
